theory Spec2Isabelle
  imports Complex_Main "HOL-Library.Word"
begin

section \<open>JavaScript numbers\<close>

text \<open>
  The conversion in \<^verbatim>\<open>AsciiCanvas.tsx\<close> computes with JavaScript numbers. A number is
  modelled as a real or one of the three special values of IEEE arithmetic, so that a
  division by zero, an \<^verbatim>\<open>Infinity * 0\<close> and a \<^verbatim>\<open>NaN\<close> that reaches \<^verbatim>\<open>Math.min\<close>,
  \<^verbatim>\<open>Math.max\<close> or a string index behave as they do in the program. Finite values are
  exact: rounding, overflow of finite results and the sign of zero are not modelled
  (a zero divisor counts as \<^verbatim>\<open>+0\<close>). Where the program's doubles round, a finite
  result of the model can differ from the program's in the last place; no condition
  that such a tie decides is stated below, and the value of \<^verbatim>\<open>contrastFactor\<close> is a
  parameter where its being infinite matters.
\<close>

datatype jsnum = Fin real | PInf | NInf | NaN

instantiation jsnum :: "{plus, uminus, minus, times, inverse}"
begin

fun plus_jsnum :: "jsnum \<Rightarrow> jsnum \<Rightarrow> jsnum" where
  "plus_jsnum NaN _ = NaN"
| "plus_jsnum _ NaN = NaN"
| "plus_jsnum (Fin a) (Fin b) = Fin (a + b)"
| "plus_jsnum PInf NInf = NaN"
| "plus_jsnum NInf PInf = NaN"
| "plus_jsnum PInf _ = PInf"
| "plus_jsnum _ PInf = PInf"
| "plus_jsnum NInf _ = NInf"
| "plus_jsnum _ NInf = NInf"

fun uminus_jsnum :: "jsnum \<Rightarrow> jsnum" where
  "uminus_jsnum (Fin a) = Fin (- a)"
| "uminus_jsnum PInf = NInf"
| "uminus_jsnum NInf = PInf"
| "uminus_jsnum NaN = NaN"

definition minus_jsnum :: "jsnum \<Rightarrow> jsnum \<Rightarrow> jsnum" where
  "minus_jsnum a b = a + (- b)"

fun times_jsnum :: "jsnum \<Rightarrow> jsnum \<Rightarrow> jsnum" where
  "times_jsnum NaN _ = NaN"
| "times_jsnum _ NaN = NaN"
| "times_jsnum (Fin a) (Fin b) = Fin (a * b)"
| "times_jsnum (Fin a) PInf = (if a = 0 then NaN else if 0 < a then PInf else NInf)"
| "times_jsnum (Fin a) NInf = (if a = 0 then NaN else if 0 < a then NInf else PInf)"
| "times_jsnum PInf (Fin b) = (if b = 0 then NaN else if 0 < b then PInf else NInf)"
| "times_jsnum NInf (Fin b) = (if b = 0 then NaN else if 0 < b then NInf else PInf)"
| "times_jsnum PInf PInf = PInf"
| "times_jsnum NInf NInf = PInf"
| "times_jsnum PInf NInf = NInf"
| "times_jsnum NInf PInf = NInf"

fun divide_jsnum :: "jsnum \<Rightarrow> jsnum \<Rightarrow> jsnum" where
  "divide_jsnum NaN _ = NaN"
| "divide_jsnum _ NaN = NaN"
| "divide_jsnum (Fin a) (Fin b) =
     (if b \<noteq> 0 then Fin (a / b)
      else if 0 < a then PInf else if a < 0 then NInf else NaN)"
| "divide_jsnum (Fin a) PInf = Fin 0"
| "divide_jsnum (Fin a) NInf = Fin 0"
| "divide_jsnum PInf (Fin b) = (if 0 \<le> b then PInf else NInf)"
| "divide_jsnum NInf (Fin b) = (if 0 \<le> b then NInf else PInf)"
| "divide_jsnum _ _ = NaN"

fun inverse_jsnum :: "jsnum \<Rightarrow> jsnum" where
  "inverse_jsnum (Fin a) = (if a \<noteq> 0 then Fin (1 / a) else PInf)"
| "inverse_jsnum PInf = Fin 0"
| "inverse_jsnum NInf = Fin 0"
| "inverse_jsnum NaN = NaN"

instance ..

end

text \<open>\<^verbatim>\<open>Math.floor\<close>, \<^verbatim>\<open>Math.max\<close> and \<^verbatim>\<open>Math.min\<close>: a \<^verbatim>\<open>NaN\<close> argument gives \<^verbatim>\<open>NaN\<close>.\<close>

fun Math_floor :: "jsnum \<Rightarrow> jsnum" where
  "Math_floor (Fin a) = Fin (of_int \<lfloor>a\<rfloor>)"
| "Math_floor v = v"

fun Math_max :: "jsnum \<Rightarrow> jsnum \<Rightarrow> jsnum" where
  "Math_max NaN _ = NaN"
| "Math_max _ NaN = NaN"
| "Math_max PInf _ = PInf"
| "Math_max _ PInf = PInf"
| "Math_max NInf b = b"
| "Math_max a NInf = a"
| "Math_max (Fin a) (Fin b) = Fin (max a b)"

fun Math_min :: "jsnum \<Rightarrow> jsnum \<Rightarrow> jsnum" where
  "Math_min NaN _ = NaN"
| "Math_min _ NaN = NaN"
| "Math_min NInf _ = NInf"
| "Math_min _ NInf = NInf"
| "Math_min PInf b = b"
| "Math_min a PInf = a"
| "Math_min (Fin a) (Fin b) = Fin (min a b)"

section \<open>Settings and character ramps\<close>

text \<open>
  \<^verbatim>\<open>AsciiSettings\<close> of \<^verbatim>\<open>types.ts\<close>. The numeric fields are set by range inputs through
  \<^verbatim>\<open>parseFloat\<close>, so they are finite numbers.
\<close>

datatype charset_mode = halftone | ascii | binary | blocks | detail

record AsciiSettings =
  resolution :: real
  contrast :: real
  brightness :: real
  invert :: bool
  charSetMode :: charset_mode

text \<open>
  A JavaScript string is a sequence of UTF-16 code units; a glyph is one code unit.
  \<^verbatim>\<open>utf16\<close> reads an ASCII literal, the code units beyond ASCII are written as numbers
  (U+00B7 middle dot; U+2591, U+2592, U+2593 shades; U+2588 full block).
\<close>

type_synonym glyph = nat

definition utf16 :: "string \<Rightarrow> glyph list" where
  "utf16 cs = map of_char cs"

definition space :: glyph where
  "space = 32"

text \<open>\<^verbatim>\<open>CHAR_SETS\<close>, lines 236 to 243.\<close>

fun CHAR_SETS :: "charset_mode \<Rightarrow> glyph list" where
  "CHAR_SETS halftone = utf16 '' .'' @ [183] @ utf16 '':+*?%S#@''"
| "CHAR_SETS detail =
     utf16 '' `.-'' @
     utf16 ([CHR 0x27] @ '':_,^=;><+!rc*/z?sLTv)J7(|Fi{C}fI31tlu[neoZ5Yxjya]2ESwqkP6h9d4VpOGbUAKXHm8RD#$Bg0MNWQ%&@'')"
| "CHAR_SETS ascii =
     utf16 ('' .`^'' @ [CHR 0x22] @ '',:;Il!i~+_-?][}{1)(|'' @ [CHR 0x5C] @
            ''/tfjrxnuvczXYUJCLQ0OZmwqpdbkhao*#MW&8%B@$'')"
| "CHAR_SETS binary = utf16 '' 01''"
| "CHAR_SETS blocks = utf16 '' '' @ [0x2591, 0x2592, 0x2593, 0x2588]"

text \<open>
  The ramps as section 6 of the specification writes them, for comparison with
  \<^verbatim>\<open>CHAR_SETS\<close>.
\<close>

fun spec_ramp :: "charset_mode \<Rightarrow> glyph list" where
  "spec_ramp halftone = utf16 '' .'' @ [183] @ utf16 '':+*?%S#@''"
| "spec_ramp detail =
     utf16 '' '' @
     utf16 (''`.-'' @ [CHR 0x27] @ '':_,^=;><+!rc*/z?sLTv)J7(|Fi{C}fI31tlu[neoZ5Yxjya]2ESwqkP6h9d4VpOGbUAKXHm8RD#$Bg0MNWQ%&@$'')"
| "spec_ramp ascii =
     utf16 ('' .`^'' @ [CHR 0x22] @ '',:;Il!i~+_-?][}{1)(|'' @ [CHR 0x5C] @
            ''/tfjrxnuvczXYUJCLQ0OZmwqpdbkhao*#MW&8%B@$'')"
| "spec_ramp binary = utf16 '' 01''"
| "spec_ramp blocks = utf16 '' '' @ [0x2591, 0x2592, 0x2593, 0x2588]"

section \<open>The conversion\<close>

text \<open>
  The image handed to \<^verbatim>\<open>processImage\<close>: its pixel dimensions and, as a parameter of
  the model, the RGBA buffer that the browser's \<^verbatim>\<open>drawImage\<close> followed by
  \<^verbatim>\<open>getImageData\<close> returns when the image is scaled to a given number of columns and
  rows (a \<^verbatim>\<open>Uint8ClampedArray\<close>, four bytes for each sampled pixel, row by row).
  The off-screen context of line 272 is taken to exist.
\<close>

type_synonym byte = "8 word"

record HTMLImageElement =
  width :: nat
  height :: nat
  drawn :: "nat \<Rightarrow> nat \<Rightarrow> byte list"

text \<open>The constants computed by lines 278 to 294.\<close>

record geometry =
  fontSize :: jsnum
  fontWidth :: jsnum
  fontHeight :: jsnum
  ratio :: jsnum
  cols :: jsnum
  safeCols :: jsnum
  rows :: jsnum

definition processImage_geometry :: "HTMLImageElement \<Rightarrow> AsciiSettings \<Rightarrow> geometry" where
  "processImage_geometry img settings =
     (let minFont = Fin 5;
          maxFont = Fin 20;
          fontSize = Math_max minFont
            (Math_floor (maxFont - (Fin (resolution settings) * (maxFont - minFont))));
          fontWidth = fontSize * Fin 0.55;
          fontHeight = fontSize;
          ratio = Fin (real (height img)) / Fin (real (width img));
          cols = Math_floor (Fin (real (width img)) / (fontWidth / Fin (resolution settings)));
          safeCols = Math_min (Math_max cols (Fin 40)) (Fin 600);
          rows = Math_floor (safeCols * ratio * (fontWidth / fontHeight))
      in \<lparr>fontSize = fontSize, fontWidth = fontWidth, fontHeight = fontHeight, ratio = ratio,
          cols = cols, safeCols = safeCols, rows = rows\<rparr>)"

text \<open>Line 317.\<close>

definition contrastFactor :: "AsciiSettings \<Rightarrow> jsnum" where
  "contrastFactor settings =
     (Fin 259 * (Fin (contrast settings) * Fin 255 + Fin 255)) /
     (Fin 255 * (Fin 259 - Fin (contrast settings) * Fin 255))"

text \<open>
  \<^verbatim>\<open>data[offset]\<close>: a byte of the buffer, or \<^verbatim>\<open>undefined\<close> beyond its end, which
  the arithmetic that follows turns into \<^verbatim>\<open>NaN\<close>.
\<close>

definition dataAt :: "byte list \<Rightarrow> nat \<Rightarrow> jsnum" where
  "dataAt data i = (if i < length data then Fin (real (unat (data ! i))) else NaN)"

text \<open>Lines 328 to 343: from the three colour samples of a cell to \<^verbatim>\<open>charIndex\<close>.\<close>

definition charIndex :: "glyph list \<Rightarrow> AsciiSettings \<Rightarrow> jsnum \<Rightarrow> jsnum \<Rightarrow> jsnum \<Rightarrow> jsnum" where
  "charIndex chars settings r g b =
     (let charsLen = Fin (real (length chars));
          gray = Fin 0.299 * r + Fin 0.587 * g + Fin 0.114 * b;
          gray = gray + Fin (brightness settings);
          gray = contrastFactor settings * (gray - Fin 128) + Fin 128;
          gray = Math_max (Fin 0) (Math_min (Fin 255) gray);
          gray = (if invert settings then Fin 255 - gray else gray)
      in Math_floor ((gray / Fin 255) * (charsLen - Fin 1)))"

text \<open>
  The same lines as a function of the value that the constant \<^verbatim>\<open>contrastFactor\<close>
  holds when the loops run: \<open>bodyGray\<close> is \<^verbatim>\<open>gray\<close> after line 341 and
  \<open>bodyCharIndex\<close> is \<^verbatim>\<open>charIndex\<close> of line 343.
\<close>

definition bodyGray :: "jsnum \<Rightarrow> AsciiSettings \<Rightarrow> jsnum \<Rightarrow> jsnum \<Rightarrow> jsnum \<Rightarrow> jsnum" where
  "bodyGray contrastFactor' settings r g b =
     (let gray = Fin 0.299 * r + Fin 0.587 * g + Fin 0.114 * b;
          gray = gray + Fin (brightness settings);
          gray = contrastFactor' * (gray - Fin 128) + Fin 128;
          gray = Math_max (Fin 0) (Math_min (Fin 255) gray)
      in if invert settings then Fin 255 - gray else gray)"

definition bodyCharIndex :: "glyph list \<Rightarrow> jsnum \<Rightarrow> AsciiSettings \<Rightarrow> jsnum \<Rightarrow> jsnum \<Rightarrow> jsnum \<Rightarrow> jsnum" where
  "bodyCharIndex chars contrastFactor' settings r g b =
     (let charsLen = Fin (real (length chars));
          gray = bodyGray contrastFactor' settings r g b
      in Math_floor ((gray / Fin 255) * (charsLen - Fin 1)))"

text \<open>
  \<^verbatim>\<open>chars[charIndex]\<close>: the code unit at an integer index inside the string,
  \<^verbatim>\<open>undefined\<close> (here \<open>None\<close>) for every other number.
\<close>

definition charAt :: "glyph list \<Rightarrow> jsnum \<Rightarrow> glyph option" where
  "charAt chars i =
     (case i of
        Fin v \<Rightarrow>
          if of_int \<lfloor>v\<rfloor> = v \<and> 0 \<le> v \<and> v < real (length chars)
          then Some (chars ! nat \<lfloor>v\<rfloor>) else None
      | _ \<Rightarrow> None)"

text \<open>
  The body of the inner loop, lines 322 to 349. A cell is \<open>Glyph c\<close> when
  \<^verbatim>\<open>fillText\<close> paints the character \<open>c\<close> at the cell's position and \<open>Empty\<close> when
  nothing is painted over the background.
\<close>

datatype cell = Glyph glyph | Empty

definition cellAt :: "byte list \<Rightarrow> AsciiSettings \<Rightarrow> nat \<Rightarrow> nat \<Rightarrow> nat \<Rightarrow> cell" where
  "cellAt data settings safeCols' y x =
     (let chars = CHAR_SETS (charSetMode settings);
          offset = (y * safeCols' + x) * 4;
          r = dataAt data offset;
          g = dataAt data (offset + 1);
          b = dataAt data (offset + 2);
          char = charAt chars (charIndex chars settings r g b)
      in case char of
           Some c \<Rightarrow> if c \<noteq> space then Glyph c else Empty
         | None \<Rightarrow> Empty)"

text \<open>The two loops, lines 320 and 321, over the integers \<open>safeCols'\<close> and \<open>rows'\<close> that
  \<^verbatim>\<open>safeCols\<close> and \<^verbatim>\<open>rows\<close> hold; the painted cells are collected row by row.\<close>

function xloop :: "byte list \<Rightarrow> AsciiSettings \<Rightarrow> nat \<Rightarrow> nat \<Rightarrow> nat \<Rightarrow> cell list \<Rightarrow> cell list" where
  "xloop data settings safeCols' y x row =
     (if x < safeCols'
      then xloop data settings safeCols' y (x + 1) (row @ [cellAt data settings safeCols' y x])
      else row)"
  by pat_completeness auto
termination
  by (relation "measure (\<lambda>(data, settings, safeCols', y, x, row). safeCols' - x)") auto

function yloop :: "byte list \<Rightarrow> AsciiSettings \<Rightarrow> nat \<Rightarrow> nat \<Rightarrow> nat \<Rightarrow> cell list list \<Rightarrow> cell list list" where
  "yloop data settings safeCols' rows' y grid =
     (if y < rows'
      then yloop data settings safeCols' rows' (y + 1) (grid @ [xloop data settings safeCols' y 0 []])
      else grid)"
  by pat_completeness auto
termination
  by (relation "measure (\<lambda>(data, settings, safeCols', rows', y, grid). rows' - y)") auto

declare xloop.simps [simp del] yloop.simps [simp del]

text \<open>
  The arguments of \<^verbatim>\<open>getImageData\<close> are converted to 32-bit integers with range
  enforcement: \<^verbatim>\<open>NaN\<close>, an infinity or a number whose integer part does not fit make
  the call throw a \<^verbatim>\<open>TypeError\<close>. A width or height of 0 makes it throw an
  \<^verbatim>\<open>IndexSizeError\<close>.
\<close>

datatype error = TypeError | IndexSizeError

definition IntegerPart :: "real \<Rightarrow> int" where
  "IntegerPart a = (if 0 \<le> a then \<lfloor>a\<rfloor> else \<lceil>a\<rceil>)"

definition inLongRange :: "int \<Rightarrow> bool" where
  "inLongRange n = (- (2 ^ 31) \<le> n \<and> n \<le> 2 ^ 31 - 1)"

text \<open>
  The visible canvas holds the glyph grid painted on it. Assigning \<^verbatim>\<open>canvas.width\<close>
  and \<^verbatim>\<open>canvas.height\<close> (lines 304 and 305) clears it, and the background fill leaves
  every cell empty before the loops paint. Font, colours and pixel coordinates are the
  same for every glyph and are not part of the state.
\<close>

record canvas =
  painted :: "cell list list"

definition processImage :: "HTMLImageElement \<Rightarrow> canvas \<Rightarrow> AsciiSettings \<Rightarrow> error + canvas" where
  "processImage img canvas settings =
     (let geo = processImage_geometry img settings
      in case (safeCols geo, rows geo) of
           (Fin c, Fin r) \<Rightarrow>
             (let sw = IntegerPart c; sh = IntegerPart r
              in if inLongRange sw \<and> inLongRange sh
                 then
                   if sw = 0 \<or> sh = 0 then Inl IndexSizeError
                   else
                     (let data = drawn img (nat \<bar>sw\<bar>) (nat \<bar>sh\<bar>);
                          canvas = canvas\<lparr>painted := []\<rparr>
                      in Inr (canvas\<lparr>painted :=
                           yloop data settings (nat \<lceil>c\<rceil>) (nat \<lceil>r\<rceil>) 0 (painted canvas)\<rparr>))
                 else Inl TypeError)
         | _ \<Rightarrow> Inl TypeError)"

section \<open>Inputs of the scenarios\<close>

text \<open>The initial settings of \<^verbatim>\<open>App.tsx\<close>, lines 10 to 14.\<close>

definition defaultSettings :: AsciiSettings where
  "defaultSettings =
     \<lparr>resolution = 0.7, contrast = 1.1, brightness = 0, invert = False, charSetMode = detail\<rparr>"

text \<open>An opaque image of one colour: every sample of every scaling has that colour.\<close>

definition uniformImage :: "nat \<Rightarrow> nat \<Rightarrow> byte \<Rightarrow> byte \<Rightarrow> byte \<Rightarrow> HTMLImageElement" where
  "uniformImage w h r g b =
     \<lparr>width = w, height = h,
      drawn = (\<lambda>c n. concat (replicate (c * n) [r, g, b, 255]))\<rparr>"

section \<open>The tone steps as the specification lists them\<close>

text \<open>
  Steps 1 to 6 of section 4.2 of the specification, one definition for each step, for
  comparison with \<^verbatim>\<open>charIndex\<close>.
\<close>

definition spec_luminance :: "jsnum \<Rightarrow> jsnum \<Rightarrow> jsnum \<Rightarrow> jsnum" where
  "spec_luminance r g b = Fin 0.299 * r + Fin 0.587 * g + Fin 0.114 * b"

definition spec_brightness :: "AsciiSettings \<Rightarrow> jsnum \<Rightarrow> jsnum" where
  "spec_brightness settings gray = gray + Fin (brightness settings)"

definition spec_contrastFactor :: "AsciiSettings \<Rightarrow> jsnum" where
  "spec_contrastFactor settings =
     Fin 259 * (Fin (contrast settings) * Fin 255 + Fin 255) /
     (Fin 255 * (Fin 259 - Fin (contrast settings) * Fin 255))"

definition spec_contrast :: "AsciiSettings \<Rightarrow> jsnum \<Rightarrow> jsnum" where
  "spec_contrast settings gray = spec_contrastFactor settings * (gray - Fin 128) + Fin 128"

definition spec_clamp :: "jsnum \<Rightarrow> jsnum" where
  "spec_clamp gray = Math_max (Fin 0) (Math_min (Fin 255) gray)"

definition spec_invert :: "AsciiSettings \<Rightarrow> jsnum \<Rightarrow> jsnum" where
  "spec_invert settings gray = (if invert settings then Fin 255 - gray else gray)"

definition spec_rampIndex :: "nat \<Rightarrow> jsnum \<Rightarrow> jsnum" where
  "spec_rampIndex rampLength gray =
     Math_floor ((gray / Fin 255) * (Fin (real rampLength) - Fin 1))"

section \<open>Auxiliary facts\<close>

text \<open>The loops collect exactly the cells of the grid, row by row.\<close>

lemma xloop_eq: "xloop data s c y x row = row @ map (cellAt data s c y) [x..<c]"
proof (induction data s c y x row rule: xloop.induct)
  case (1 data s c y x row)
  show ?case
  proof (cases "x < c")
    case True
    then show ?thesis
      using "1.IH" [OF True] by (subst xloop.simps) (simp add: upt_conv_Cons)
  next
    case False
    then show ?thesis by (subst xloop.simps) simp
  qed
qed

lemma yloop_eq:
  "yloop data s c r y grid = grid @ map (\<lambda>y. map (cellAt data s c y) [0..<c]) [y..<r]"
proof (induction data s c r y grid rule: yloop.induct)
  case (1 data s c r y grid)
  show ?case
  proof (cases "y < r")
    case True
    then show ?thesis
      using "1.IH" [OF True] by (subst yloop.simps) (simp add: upt_conv_Cons xloop_eq)
  next
    case False
    then show ?thesis by (subst yloop.simps) simp
  qed
qed

text \<open>
  With a non-zero resolution and a non-zero image width every division of the geometry
  is a division of reals.
\<close>

lemma geometry_fin:
  assumes "resolution s \<noteq> 0" and "width img \<noteq> 0"
  shows "processImage_geometry img s =
    (let fs = max 5 (real_of_int \<lfloor>20 - resolution s * 15\<rfloor>);
         c = min (max (real_of_int \<lfloor>real (width img) / (fs * 0.55 / resolution s)\<rfloor>) 40) 600
     in \<lparr>fontSize = Fin fs, fontWidth = Fin (fs * 0.55), fontHeight = Fin fs,
         ratio = Fin (real (height img) / real (width img)),
         cols = Fin (real_of_int \<lfloor>real (width img) / (fs * 0.55 / resolution s)\<rfloor>),
         safeCols = Fin c,
         rows = Fin (real_of_int \<lfloor>c * (real (height img) / real (width img)) * 0.55\<rfloor>)\<rparr>)"
proof -
  have "max 5 (real_of_int \<lfloor>20 - resolution s * 15\<rfloor>) \<noteq> 0" by linarith
  with assms show ?thesis
    by (simp add: processImage_geometry_def Let_def minus_jsnum_def)
qed

lemma cols_fin:
  assumes "resolution s \<noteq> 0"
  shows "cols (processImage_geometry img s) =
      Fin (real_of_int \<lfloor>real (width img) /
        (max 5 (real_of_int \<lfloor>20 - resolution s * 15\<rfloor>) * 0.55 / resolution s)\<rfloor>)"
    and "safeCols (processImage_geometry img s) =
      Fin (real_of_int (min (max \<lfloor>real (width img) /
        (max 5 (real_of_int \<lfloor>20 - resolution s * 15\<rfloor>) * 0.55 / resolution s)\<rfloor> 40) 600))"
proof -
  have "max 5 (real_of_int \<lfloor>20 - resolution s * 15\<rfloor>) \<noteq> 0" by linarith
  with assms show
    "cols (processImage_geometry img s) =
      Fin (real_of_int \<lfloor>real (width img) /
        (max 5 (real_of_int \<lfloor>20 - resolution s * 15\<rfloor>) * 0.55 / resolution s)\<rfloor>)"
    and "safeCols (processImage_geometry img s) =
      Fin (real_of_int (min (max \<lfloor>real (width img) /
        (max 5 (real_of_int \<lfloor>20 - resolution s * 15\<rfloor>) * 0.55 / resolution s)\<rfloor> 40) 600))"
    by (simp_all add: processImage_geometry_def Let_def minus_jsnum_def)
qed

lemma raw_cols_mono:
  fixes w r1 r2 :: real
  assumes "0 \<le> w" and "0 < r1" and "r1 \<le> r2"
  shows "w / (max 5 (real_of_int \<lfloor>20 - r1 * 15\<rfloor>) * 0.55 / r1)
       \<le> w / (max 5 (real_of_int \<lfloor>20 - r2 * 15\<rfloor>) * 0.55 / r2)"
proof -
  define f1 where "f1 = max 5 (real_of_int \<lfloor>20 - r1 * 15\<rfloor>)"
  define f2 where "f2 = max 5 (real_of_int \<lfloor>20 - r2 * 15\<rfloor>)"
  have "\<lfloor>20 - r2 * 15\<rfloor> \<le> \<lfloor>20 - r1 * 15\<rfloor>"
    using assms by (intro floor_mono) simp
  then have f21: "f2 \<le> f1" unfolding f1_def f2_def by simp
  have f2pos: "0 < f2" unfolding f2_def by simp
  have "w * r1 / (f1 * 0.55) \<le> w * r2 / (f2 * 0.55)"
  proof (rule frac_le)
    show "0 \<le> w * r2" using assms by simp
    show "w * r1 \<le> w * r2" using assms by (simp add: mult_left_mono)
    show "0 < f2 * 0.55" using f2pos by simp
    show "f2 * 0.55 \<le> f1 * 0.55" using f21 by simp
  qed
  then show ?thesis unfolding f1_def f2_def by simp
qed

text \<open>
  \<^verbatim>\<open>charIndex\<close> is the loop body at the contrast factor of the settings. The clamp
  leaves a number between 0 and 255 unless its argument is \<^verbatim>\<open>NaN\<close>.
\<close>

lemma charIndex_body:
  "charIndex chars s r g b = bodyCharIndex chars (contrastFactor s) s r g b"
  by (simp add: charIndex_def bodyCharIndex_def bodyGray_def Let_def)

lemma clamp_fin:
  assumes "v \<noteq> NaN"
  shows "\<exists>t. Math_max (Fin 0) (Math_min (Fin 255) v) = Fin t \<and> 0 \<le> t \<and> t \<le> 255"
  using assms by (cases v) auto

lemma ramp_index_in_range:
  assumes "0 \<le> t" and "t \<le> 255" and "chars \<noteq> []"
  shows "\<exists>i. Math_floor ((Fin t / Fin 255) * (Fin (real (length chars)) - Fin 1)) = Fin (of_int i) \<and>
             0 \<le> i \<and> i < int (length chars) \<and>
             charAt chars (Fin (of_int i)) = Some (chars ! nat i)"
proof -
  define L where "L = real (length chars)"
  define i where "i = \<lfloor>t / 255 * (L - 1)\<rfloor>"
  have L1: "1 \<le> L" using assms(3) unfolding L_def by (cases chars) simp_all
  have lo: "0 \<le> t / 255 * (L - 1)" using assms(1) L1 by simp
  have "t / 255 \<le> 1" using assms(2) by simp
  then have "t / 255 * (L - 1) \<le> 1 * (L - 1)" using L1 by (intro mult_right_mono) simp_all
  then have hi: "t / 255 * (L - 1) < L" by simp
  have i0: "0 \<le> i" unfolding i_def using lo by simp
  have iL: "i < int (length chars)"
    unfolding i_def using hi by (simp add: L_def floor_less_iff)
  have eq: "Math_floor ((Fin t / Fin 255) * (Fin (real (length chars)) - Fin 1)) = Fin (of_int i)"
    by (simp add: minus_jsnum_def i_def L_def)
  have "charAt chars (Fin (of_int i)) = Some (chars ! nat i)"
    using i0 iL by (simp add: charAt_def)
  with eq i0 iL show ?thesis by blast
qed

lemma first_char_is_space: "charAt (CHAR_SETS m) (Fin 0) = Some space"
  by (cases m) (simp_all add: charAt_def utf16_def space_def)

text \<open>The buffer of a one-coloured image, and the grid painted from it.\<close>

lemma length_concat_replicate: "length (concat (replicate n xs)) = n * length xs"
  by (induction n) simp_all

lemma nth_concat_replicate:
  "i < n * length xs \<Longrightarrow> concat (replicate n xs) ! i = xs ! (i mod length xs)"
proof (induction n arbitrary: i)
  case 0
  then show ?case by simp
next
  case (Suc n)
  show ?case
  proof (cases "i < length xs")
    case True
    then show ?thesis by (simp add: nth_append)
  next
    case False
    with Suc.prems have "i - length xs < n * length xs" by simp
    from Suc.IH [OF this] False show ?thesis
      by (simp add: nth_append le_mod_geq)
  qed
qed

lemma cell_position_in_grid:
  fixes x y c n :: nat
  assumes "x < c" and "y < n"
  shows "y * c + x < c * n"
proof -
  have "y * c + x < y * c + c" using assms(1) by simp
  also have "\<dots> = (y + 1) * c" by simp
  also have "\<dots> \<le> n * c" using assms(2) by (intro mult_right_mono) simp_all
  finally show ?thesis by (simp add: mult.commute)
qed

lemma dataAt_uniform:
  assumes "p < m"
  shows "dataAt (concat (replicate m [r, g, b, a])) (p * 4) = Fin (real (unat r))"
    and "dataAt (concat (replicate m [r, g, b, a])) (p * 4 + 1) = Fin (real (unat g))"
    and "dataAt (concat (replicate m [r, g, b, a])) (p * 4 + 2) = Fin (real (unat b))"
proof -
  have len: "length (concat (replicate m [r, g, b, a])) = m * 4"
    by (simp add: length_concat_replicate)
  have in0: "p * 4 < m * length [r, g, b, a]" "p * 4 + 1 < m * length [r, g, b, a]"
    "p * 4 + 2 < m * length [r, g, b, a]" using assms by simp_all
  have m0: "(p * 4) mod 4 = 0" "(p * 4 + 1) mod 4 = 1" "(p * 4 + 2) mod 4 = 2" by presburger+
  show "dataAt (concat (replicate m [r, g, b, a])) (p * 4) = Fin (real (unat r))"
    using in0(1) nth_concat_replicate [OF in0(1)] m0(1) by (simp add: dataAt_def len)
  show "dataAt (concat (replicate m [r, g, b, a])) (p * 4 + 1) = Fin (real (unat g))"
    using in0(2) nth_concat_replicate [OF in0(2)] m0(2) by (simp add: dataAt_def len)
  show "dataAt (concat (replicate m [r, g, b, a])) (p * 4 + 2) = Fin (real (unat b))"
    using in0(3) nth_concat_replicate [OF in0(3)] m0(3) by (simp add: dataAt_def len)
qed

lemma cellAt_uniform:
  assumes "x < c" and "y < n"
  shows "cellAt (concat (replicate (c * n) [r, g, b, a])) s c y x =
    (case charAt (CHAR_SETS (charSetMode s))
        (charIndex (CHAR_SETS (charSetMode s)) s
           (Fin (real (unat r))) (Fin (real (unat g))) (Fin (real (unat b)))) of
       Some ch \<Rightarrow> if ch \<noteq> space then Glyph ch else Empty
     | None \<Rightarrow> Empty)"
  using dataAt_uniform [OF cell_position_in_grid [OF assms], of r g b a]
  by (simp add: cellAt_def Let_def)

lemma grid_uniform:
  "map (\<lambda>y. map (cellAt (concat (replicate (c * n) [r, g, b, a])) s c y) [0..<c]) [0..<n] =
   replicate n (replicate c
    (case charAt (CHAR_SETS (charSetMode s))
        (charIndex (CHAR_SETS (charSetMode s)) s
           (Fin (real (unat r))) (Fin (real (unat g))) (Fin (real (unat b)))) of
       Some ch \<Rightarrow> if ch \<noteq> space then Glyph ch else Empty
     | None \<Rightarrow> Empty))"
proof -
  have row: "map (cellAt (concat (replicate (c * n) [r, g, b, a])) s c y) [0..<c] =
      replicate c
    (case charAt (CHAR_SETS (charSetMode s))
        (charIndex (CHAR_SETS (charSetMode s)) s
           (Fin (real (unat r))) (Fin (real (unat g))) (Fin (real (unat b)))) of
       Some ch \<Rightarrow> if ch \<noteq> space then Glyph ch else Empty
     | None \<Rightarrow> Empty)" if "y < n" for y
    using that by (intro nth_equalityI) (simp_all add: cellAt_uniform)
  show ?thesis
    by (intro nth_equalityI) (simp_all add: row)
qed

lemma black_default_index:
  "charIndex (CHAR_SETS detail) defaultSettings (Fin 0) (Fin 0) (Fin 0) = Fin 91"
  by (simp add: charIndex_def contrastFactor_def defaultSettings_def Let_def minus_jsnum_def
      utf16_def)

section \<open>The claims\<close>

text \<open>
  C1. Scenario A: a 100 by 100 image of opaque black with the initial settings
  (contrast 1.1, brightness 0, no inversion, ramp \<open>detail\<close>). The grid has 22 rows of 40
  cells. The contrast factor is negative at contrast 1.1, the tone 0 is sent to 3366 and
  clamped to 255, and every cell is painted with the last glyph of the ramp, \<open>@\<close>
  (code unit 64, index 91); no cell is left empty.
\<close>

theorem scenario_A_black_default_paints_densest:
  "processImage (uniformImage 100 100 0 0 0) canvas defaultSettings =
     Inr \<lparr>painted = replicate 22 (replicate 40 (Glyph 64))\<rparr>"
proof -
  have geo: "safeCols (processImage_geometry (uniformImage 100 100 0 0 0) defaultSettings) = Fin 40"
    "rows (processImage_geometry (uniformImage 100 100 0 0 0) defaultSettings) = Fin 22"
    by (simp_all add: geometry_fin uniformImage_def defaultSettings_def Let_def)
  have long: "IntegerPart 40 = 40" "IntegerPart 22 = 22" "inLongRange 40" "inLongRange 22"
    by (simp_all add: IntegerPart_def inLongRange_def)
  have data: "drawn (uniformImage 100 100 0 0 0) 40 22 = concat (replicate 880 [0, 0, 0, 255])"
    by (simp add: uniformImage_def)
  have mode: "charSetMode defaultSettings = detail" by (simp add: defaultSettings_def)
  have ch: "charAt (CHAR_SETS detail) (Fin 91) = Some 64"
    by (simp add: charAt_def utf16_def)
  have cell: "(case charAt (CHAR_SETS (charSetMode defaultSettings))
        (charIndex (CHAR_SETS (charSetMode defaultSettings)) defaultSettings
           (Fin (real (unat (0 :: byte)))) (Fin (real (unat (0 :: byte)))) (Fin (real (unat (0 :: byte))))) of
       Some ch \<Rightarrow> if ch \<noteq> space then Glyph ch else Empty
     | None \<Rightarrow> Empty) = Glyph 64"
    unfolding mode by (simp add: black_default_index ch space_def del: CHAR_SETS.simps)
  have e: "(40::nat) * 22 = 880" by simp
  have "map (\<lambda>y. map (cellAt (concat (replicate (40 * 22) [0, 0, 0, 255])) defaultSettings 40 y)
          [0..<40]) [0..<22] = replicate 22 (replicate 40 (Glyph 64))"
    using grid_uniform [of 40 22 0 0 0 255 defaultSettings] by (simp only: cell)
  then have grid: "yloop (concat (replicate 880 [0, 0, 0, 255])) defaultSettings 40 22 0 [] =
      replicate 22 (replicate 40 (Glyph 64))"
    unfolding yloop_eq e by (simp only: append_Nil)
  show ?thesis
    unfolding processImage_def Let_def geo
    by (simp add: long data grid del: replicate.simps)
qed

text \<open>
  C2. For every cell and every settings record the index into the ramp is computed by
  the six steps of the specification in their order: luminance with the weights 0.299,
  0.587 and 0.114, plus brightness, contrast around 128 with the contrast factor, clamp
  to 0..255, inversion when \<open>invert\<close> is set, and the floor of gray / 255 times the ramp
  length minus one.
\<close>

theorem cell_pipeline_order:
  "charIndex chars settings r g b =
     spec_rampIndex (length chars)
       (spec_invert settings
         (spec_clamp
           (spec_contrast settings
             (spec_brightness settings
               (spec_luminance r g b)))))"
  by (simp add: charIndex_def contrastFactor_def spec_rampIndex_def spec_invert_def
      spec_clamp_def spec_contrast_def spec_contrastFactor_def spec_brightness_def
      spec_luminance_def Let_def)




text \<open>
  C4, as amended. The ramps \<open>halftone\<close>, \<open>ascii\<close>, \<open>binary\<close> and \<open>blocks\<close> of the program
  are the literal strings of section 6 of the specification. The ramp \<open>detail\<close> of the
  program is the string of section 6 without its last character: the specification's
  string is the program's followed by one more \<open>$\<close>.
\<close>

theorem ramp_fidelity:
  "CHAR_SETS halftone = spec_ramp halftone \<and>
   CHAR_SETS ascii = spec_ramp ascii \<and>
   CHAR_SETS binary = spec_ramp binary \<and>
   CHAR_SETS blocks = spec_ramp blocks \<and>
   CHAR_SETS detail = butlast (spec_ramp detail) \<and>
   spec_ramp detail = CHAR_SETS detail @ utf16 ''$''"
  by (simp add: utf16_def)

text \<open>
  C4 as stated fails at \<open>detail\<close>: the program's ramp has 92 characters, the string of
  the specification 93.
\<close>

theorem detail_ramp_differs_from_spec:
  "length (CHAR_SETS detail) = 92 \<and> length (spec_ramp detail) = 93 \<and>
   CHAR_SETS detail \<noteq> spec_ramp detail"
  by (simp add: utf16_def)

text \<open>
  C5, as amended. Scenario D: at resolution 1 a 1000 by 750 image has the font size 5,
  \<open>cols = \<lfloor>1000 / 2.75\<rfloor> = 363\<close>, which lies between 40 and 600 and is not changed by
  the clamp, and \<open>rows = \<lfloor>363 * (750 / 1000) * 0.55\<rfloor> = 149\<close>: the column count times
  the aspect ratio of the image times the cell aspect factor 0.55.
\<close>

theorem scenario_D_geometry:
  "cols (processImage_geometry (img\<lparr>width := 1000, height := 750\<rparr>) (s\<lparr>resolution := 1\<rparr>)) = Fin 363 \<and>
   safeCols (processImage_geometry (img\<lparr>width := 1000, height := 750\<rparr>) (s\<lparr>resolution := 1\<rparr>)) = Fin 363 \<and>
   ratio (processImage_geometry (img\<lparr>width := 1000, height := 750\<rparr>) (s\<lparr>resolution := 1\<rparr>)) = Fin (750 / 1000) \<and>
   fontWidth (processImage_geometry (img\<lparr>width := 1000, height := 750\<rparr>) (s\<lparr>resolution := 1\<rparr>)) /
     fontHeight (processImage_geometry (img\<lparr>width := 1000, height := 750\<rparr>) (s\<lparr>resolution := 1\<rparr>)) = Fin 0.55 \<and>
   rows (processImage_geometry (img\<lparr>width := 1000, height := 750\<rparr>) (s\<lparr>resolution := 1\<rparr>)) =
     Fin (real_of_int \<lfloor>363 * (750 / 1000) * (0.55 :: real)\<rfloor>) \<and>
   rows (processImage_geometry (img\<lparr>width := 1000, height := 750\<rparr>) (s\<lparr>resolution := 1\<rparr>)) = Fin 149"
  by (simp add: geometry_fin Let_def)

text \<open>C5 as stated fails: the column count of scenario D is not 600.\<close>

theorem scenario_D_cols_not_600:
  "safeCols (processImage_geometry (uniformImage 1000 750 0 0 0)
      (defaultSettings\<lparr>resolution := 1\<rparr>)) \<noteq> Fin 600"
  by (simp add: geometry_fin uniformImage_def defaultSettings_def Let_def)

text \<open>
  C6, as amended. For a white sample (255, 255, 255), a brightness that is not negative
  and a contrast from 0 up to but excluding 259 / 255 (where the contrast factor is at
  least 1): with \<open>invert\<close> set the index is 0, whose glyph in every ramp is the space, and
  with \<open>invert\<close> cleared the index is the last one of the ramp. Flipping \<open>invert\<close> moves
  the cell from one end of the ramp to the other.
\<close>

theorem white_tone_saturates:
  assumes "0 \<le> brightness s" and "0 \<le> contrast s" and "contrast s * 255 < 259"
  shows "charIndex chars (s\<lparr>invert := True\<rparr>) (Fin 255) (Fin 255) (Fin 255) = Fin 0 \<and>
         charIndex chars (s\<lparr>invert := False\<rparr>) (Fin 255) (Fin 255) (Fin 255) =
           Fin (real (length chars) - 1) \<and>
         charAt (CHAR_SETS (charSetMode s))
           (charIndex (CHAR_SETS (charSetMode s)) (s\<lparr>invert := True\<rparr>)
              (Fin 255) (Fin 255) (Fin 255)) = Some space"
proof -
  define f where "f = 259 * (contrast s * 255 + 255) / (255 * (259 - contrast s * 255))"
  define t where "t = f * (255 + brightness s - 128) + 128"
  have den: "0 < 255 * (259 - contrast s * 255)" using assms(3) by simp
  have cf: "contrastFactor (s\<lparr>invert := v\<rparr>) = Fin f" for v
    using assms(3) by (simp add: contrastFactor_def f_def minus_jsnum_def)
  have "255 * (259 - contrast s * 255) \<le> 259 * (contrast s * 255 + 255)"
    using assms(2) by simp
  then have f1: "1 \<le> f" unfolding f_def using den by (simp add: le_divide_eq)
  have "1 * (127 + brightness s) \<le> f * (127 + brightness s)"
    using f1 assms(1) by (intro mult_right_mono) simp_all
  then have a: "127 + brightness s \<le> f * (127 + brightness s)" by (simp only: mult_1)
  have teq: "t = f * (127 + brightness s) + 128" by (simp add: t_def algebra_simps)
  have t255: "255 \<le> t" unfolding teq using a assms(1) by linarith
  have clamp: "Math_max (Fin 0) (Math_min (Fin 255) (Fin t)) = Fin 255"
    using t255 by simp
  have pre: "contrastFactor (s\<lparr>invert := v\<rparr>) *
      (Fin 0.299 * Fin 255 + Fin 0.587 * Fin 255 + Fin 0.114 * Fin 255 +
        Fin (brightness (s\<lparr>invert := v\<rparr>)) - Fin 128) + Fin 128 = Fin t" for v
    by (simp add: cf t_def minus_jsnum_def)
  have i1: "charIndex cs (s\<lparr>invert := True\<rparr>) (Fin 255) (Fin 255) (Fin 255) = Fin 0" for cs
    unfolding charIndex_def Let_def pre clamp by (simp add: minus_jsnum_def)
  have i2: "charIndex chars (s\<lparr>invert := False\<rparr>) (Fin 255) (Fin 255) (Fin 255) =
      Fin (real (length chars) - 1)"
    unfolding charIndex_def Let_def pre clamp by (simp add: minus_jsnum_def)
  show ?thesis
    unfolding i1 i2 by (simp add: first_char_is_space)
qed

text \<open>C6, as amended, at contrast 1 with the other initial settings and the ramp \<open>detail\<close>.\<close>

theorem white_tone_saturates_witness:
  "0 \<le> brightness (defaultSettings\<lparr>contrast := 1\<rparr>) \<and>
   0 \<le> contrast (defaultSettings\<lparr>contrast := 1\<rparr>) \<and>
   contrast (defaultSettings\<lparr>contrast := 1\<rparr>) * 255 < 259 \<and>
   charIndex (CHAR_SETS detail) (defaultSettings\<lparr>contrast := 1, invert := True\<rparr>)
     (Fin 255) (Fin 255) (Fin 255) = Fin 0 \<and>
   charIndex (CHAR_SETS detail) (defaultSettings\<lparr>contrast := 1, invert := False\<rparr>)
     (Fin 255) (Fin 255) (Fin 255) = Fin (real (length (CHAR_SETS detail)) - 1)"
proof -
  have h: "0 \<le> brightness (defaultSettings\<lparr>contrast := 1\<rparr>)"
    "0 \<le> contrast (defaultSettings\<lparr>contrast := 1\<rparr>)"
    "contrast (defaultSettings\<lparr>contrast := 1\<rparr>) * 255 < 259"
    by (simp_all add: defaultSettings_def)
  from h white_tone_saturates [OF h, of "CHAR_SETS detail"] show ?thesis by blast
qed

text \<open>
  C6 as stated fails: with contrast 0.5, brightness -100 and \<open>invert\<close> set, a white sample
  has the tone 207.77 after the clamp and 47.23 after the inversion, and the index into
  the ramp \<open>halftone\<close> is 1, not 0.
\<close>

theorem white_inverted_low_contrast_dark:
  "charIndex (CHAR_SETS halftone)
     \<lparr>resolution = 0.7, contrast = 0.5, brightness = - 100, invert = True, charSetMode = halftone\<rparr>
     (Fin 255) (Fin 255) (Fin 255) = Fin 1"
  by (simp add: charIndex_def contrastFactor_def Let_def minus_jsnum_def utf16_def)

text \<open>
  C7. For a fixed image the column count does not decrease when the resolution grows
  within 0.1 to 1: neither the count \<open>cols\<close> before the clamp nor the clamped \<open>safeCols\<close>.
\<close>

theorem cols_monotone:
  assumes "0.1 \<le> resolution s1" and "resolution s1 \<le> resolution s2" and "resolution s2 \<le> 1"
  shows "\<exists>c1 c2 k1 k2.
           cols (processImage_geometry img s1) = Fin k1 \<and>
           cols (processImage_geometry img s2) = Fin k2 \<and> k1 \<le> k2 \<and>
           safeCols (processImage_geometry img s1) = Fin c1 \<and>
           safeCols (processImage_geometry img s2) = Fin c2 \<and> c1 \<le> c2"
proof -
  have r1: "0 < resolution s1" and r2: "0 < resolution s2" using assms by linarith+
  let ?q = "\<lambda>s. real (width img) /
        (max 5 (real_of_int \<lfloor>20 - resolution s * 15\<rfloor>) * 0.55 / resolution s)"
  have "?q s1 \<le> ?q s2"
    using raw_cols_mono [of "real (width img)" "resolution s1" "resolution s2"] r1 assms(2)
    by simp
  then have k: "\<lfloor>?q s1\<rfloor> \<le> \<lfloor>?q s2\<rfloor>" by (rule floor_mono)
  then have c: "min (max \<lfloor>?q s1\<rfloor> 40) 600 \<le> min (max \<lfloor>?q s2\<rfloor> 40) 600" by simp
  from r1 r2 have n1: "resolution s1 \<noteq> 0" and n2: "resolution s2 \<noteq> 0" by simp_all
  show ?thesis
    using k c cols_fin [OF n1, of img] cols_fin [OF n2, of img]
    by (metis of_int_le_iff)
qed

text \<open>C7 at the resolutions 0.1 and 1 for a 1000 by 750 image.\<close>

theorem cols_monotone_witness:
  "0.1 \<le> resolution (defaultSettings\<lparr>resolution := 0.1\<rparr>) \<and>
   resolution (defaultSettings\<lparr>resolution := 0.1\<rparr>) \<le> resolution (defaultSettings\<lparr>resolution := 1\<rparr>) \<and>
   resolution (defaultSettings\<lparr>resolution := 1\<rparr>) \<le> 1 \<and>
   (\<exists>c1 c2 k1 k2.
      cols (processImage_geometry (uniformImage 1000 750 0 0 0) (defaultSettings\<lparr>resolution := 0.1\<rparr>)) = Fin k1 \<and>
      cols (processImage_geometry (uniformImage 1000 750 0 0 0) (defaultSettings\<lparr>resolution := 1\<rparr>)) = Fin k2 \<and>
      k1 \<le> k2 \<and>
      safeCols (processImage_geometry (uniformImage 1000 750 0 0 0) (defaultSettings\<lparr>resolution := 0.1\<rparr>)) = Fin c1 \<and>
      safeCols (processImage_geometry (uniformImage 1000 750 0 0 0) (defaultSettings\<lparr>resolution := 1\<rparr>)) = Fin c2 \<and>
      c1 \<le> c2)"
proof -
  have h: "0.1 \<le> resolution (defaultSettings\<lparr>resolution := 0.1\<rparr>)"
    "resolution (defaultSettings\<lparr>resolution := 0.1\<rparr>) \<le> resolution (defaultSettings\<lparr>resolution := 1\<rparr>)"
    "resolution (defaultSettings\<lparr>resolution := 1\<rparr>) \<le> 1"
    by simp_all
  from h cols_monotone [OF h, of "uniformImage 1000 750 0 0 0"] show ?thesis by blast
qed

text \<open>
  C8. Two runs of the conversion on the same image and settings paint the same glyph
  grid, whatever the canvas held before each run: the same rows, and in every cell the
  same decision between a glyph and the empty background and the same character. In
  particular a second run on the canvas left by the first repaints the same grid.
\<close>

theorem run_independent_of_canvas:
  "processImage img canvas1 settings = processImage img canvas2 settings"
  by (simp add: processImage_def Let_def split: jsnum.splits prod.splits)

text \<open>
  C9, as amended. For every sample, every non-empty ramp, every brightness and inversion
  setting and every finite value of the constant \<^verbatim>\<open>contrastFactor\<close>, the gray value
  after the clamp and the optional inversion lies between 0 and 255, the index is an
  integer from 0 to the ramp length minus one, and the character selected at it is
  defined.
\<close>

theorem ramp_index_in_bounds:
  assumes "chars \<noteq> []"
  shows "\<exists>t i. bodyGray (Fin f) s (Fin r) (Fin g) (Fin b) = Fin t \<and> 0 \<le> t \<and> t \<le> 255 \<and>
               bodyCharIndex chars (Fin f) s (Fin r) (Fin g) (Fin b) = Fin (of_int i) \<and>
               0 \<le> i \<and> i < int (length chars) \<and>
               charAt chars (bodyCharIndex chars (Fin f) s (Fin r) (Fin g) (Fin b)) =
                 Some (chars ! nat i)"
proof -
  define v where "v = f * (0.299 * r + 0.587 * g + 0.114 * b + brightness s - 128) + 128"
  have pre: "Fin f * (Fin 0.299 * Fin r + Fin 0.587 * Fin g + Fin 0.114 * Fin b +
      Fin (brightness s) - Fin 128) + Fin 128 = Fin v"
    by (simp add: v_def minus_jsnum_def)
  have "Fin v \<noteq> NaN" by simp
  from clamp_fin [OF this] obtain t where
    t: "Math_max (Fin 0) (Math_min (Fin 255) (Fin v)) = Fin t"
    and t0: "0 \<le> t" and t255: "t \<le> 255" by blast
  define t' where "t' = (if invert s then 255 - t else t)"
  have t'0: "0 \<le> t'" and t'255: "t' \<le> 255" using t0 t255 by (simp_all add: t'_def)
  have gray: "bodyGray (Fin f) s (Fin r) (Fin g) (Fin b) = Fin t'"
    unfolding bodyGray_def Let_def pre t by (simp add: t'_def minus_jsnum_def)
  have ci: "bodyCharIndex chars (Fin f) s (Fin r) (Fin g) (Fin b) =
      Math_floor ((Fin t' / Fin 255) * (Fin (real (length chars)) - Fin 1))"
    unfolding bodyCharIndex_def Let_def gray by simp
  from ramp_index_in_range [OF t'0 t'255 assms] obtain i where
    "Math_floor ((Fin t' / Fin 255) * (Fin (real (length chars)) - Fin 1)) = Fin (of_int i)"
    "0 \<le> i" "i < int (length chars)" "charAt chars (Fin (of_int i)) = Some (chars ! nat i)"
    by blast
  with ci gray t'0 t'255 show ?thesis by auto
qed

text \<open>
  C9, as amended, at a black sample with the initial settings and their contrast factor
  \<open>- 5439 / 215\<close>.
\<close>

theorem ramp_index_in_bounds_witness:
  "CHAR_SETS detail \<noteq> [] \<and>
   (\<exists>t i. bodyGray (Fin (- (5439 / 215))) defaultSettings (Fin 0) (Fin 0) (Fin 0) = Fin t \<and>
      0 \<le> t \<and> t \<le> 255 \<and>
      bodyCharIndex (CHAR_SETS detail) (Fin (- (5439 / 215))) defaultSettings (Fin 0) (Fin 0) (Fin 0) =
        Fin (of_int i) \<and>
      0 \<le> i \<and> i < int (length (CHAR_SETS detail)) \<and>
      charAt (CHAR_SETS detail)
        (bodyCharIndex (CHAR_SETS detail) (Fin (- (5439 / 215))) defaultSettings (Fin 0) (Fin 0) (Fin 0)) =
        Some (CHAR_SETS detail ! nat i))"
proof -
  have h: "CHAR_SETS detail \<noteq> []" by (simp add: utf16_def)
  from h ramp_index_in_bounds [OF h, of "- (5439 / 215)" defaultSettings 0 0 0]
  show ?thesis by blast
qed

text \<open>
  C9 as stated fails when the contrast factor is infinite, the value the division of
  line 317 gives when the product \<^verbatim>\<open>settings.contrast * 255\<close> is 259; in the program's
  double arithmetic this is so at the contrast 1.0156862745098039, the number
  71472567615745 / 70368744177664. A sample (123, 123, 123) with brightness 5 has the
  tone 128, the contrast step multiplies infinity by 0, \<^verbatim>\<open>Math.min\<close> and \<^verbatim>\<open>Math.max\<close>
  keep the \<^verbatim>\<open>NaN\<close>, and the index is \<^verbatim>\<open>NaN\<close>: no character of the ramp is selected
  (the guard on \<^verbatim>\<open>char\<close> in line 346 then leaves the cell unpainted).
\<close>

theorem infinite_factor_gives_NaN_index:
  "bodyGray PInf (defaultSettings\<lparr>contrast := 71472567615745 / 70368744177664, brightness := 5\<rparr>)
      (Fin 123) (Fin 123) (Fin 123) = NaN \<and>
   bodyCharIndex (CHAR_SETS detail) PInf
      (defaultSettings\<lparr>contrast := 71472567615745 / 70368744177664, brightness := 5\<rparr>)
      (Fin 123) (Fin 123) (Fin 123) = NaN \<and>
   charAt (CHAR_SETS detail)
     (bodyCharIndex (CHAR_SETS detail) PInf
        (defaultSettings\<lparr>contrast := 71472567615745 / 70368744177664, brightness := 5\<rparr>)
        (Fin 123) (Fin 123) (Fin 123)) = None"
  by (simp add: bodyCharIndex_def bodyGray_def defaultSettings_def charAt_def Let_def
      minus_jsnum_def)

text \<open>
  C10. For every contrast above 259 / 255 the denominator 259 - contrast * 255 is
  negative, the contrast factor is a negative number, and the contrast step
  gray \<mapsto> contrastFactor * (gray - 128) + 128 is strictly decreasing: of two tones the
  darker one is sent to the brighter value.
\<close>

theorem contrast_factor_negative:
  assumes "259 / 255 < contrast s"
  shows "\<exists>d f. Fin 259 - Fin (contrast s) * Fin 255 = Fin d \<and> d < 0 \<and>
           contrastFactor s = Fin f \<and> f < 0 \<and>
           (\<forall>g1 g2. g1 < g2 \<longrightarrow>
              (\<exists>t1 t2. contrastFactor s * (Fin g1 - Fin 128) + Fin 128 = Fin t1 \<and>
                       contrastFactor s * (Fin g2 - Fin 128) + Fin 128 = Fin t2 \<and> t2 < t1))"
proof -
  from assms have d: "259 - contrast s * 255 < 0" by (simp add: field_simps)
  define f where "f = 259 * (contrast s * 255 + 255) / (255 * (259 - contrast s * 255))"
  from d have cf: "contrastFactor s = Fin f"
    by (simp add: contrastFactor_def f_def minus_jsnum_def)
  have num: "0 < 259 * (contrast s * 255 + 255)" using d by simp
  have den: "255 * (259 - contrast s * 255) < 0" using d by simp
  have fneg: "f < 0" unfolding f_def using num den by (rule divide_pos_neg)
  have mono: "f * (g2 - 128) + 128 < f * (g1 - 128) + 128" if "g1 < g2" for g1 g2 :: real
    using that fneg by (simp add: mult_strict_left_mono_neg)
  show ?thesis
    using d cf fneg mono by (simp add: minus_jsnum_def)
qed

text \<open>C10 at the initial contrast 1.1.\<close>

theorem contrast_factor_negative_witness:
  "259 / 255 < contrast defaultSettings \<and>
   (\<exists>d f t1 t2. Fin 259 - Fin (contrast defaultSettings) * Fin 255 = Fin d \<and> d < 0 \<and>
      contrastFactor defaultSettings = Fin f \<and> f < 0 \<and>
      contrastFactor defaultSettings * (Fin 0 - Fin 128) + Fin 128 = Fin t1 \<and>
      contrastFactor defaultSettings * (Fin 255 - Fin 128) + Fin 128 = Fin t2 \<and> t2 < t1)"
proof -
  have h: "259 / 255 < contrast defaultSettings" by (simp add: defaultSettings_def)
  from contrast_factor_negative [OF h] obtain d f where
    d: "Fin 259 - Fin (contrast defaultSettings) * Fin 255 = Fin d" "d < 0"
    and f: "contrastFactor defaultSettings = Fin f" "f < 0"
    and m: "\<forall>g1 g2. g1 < g2 \<longrightarrow>
         (\<exists>t1 t2. contrastFactor defaultSettings * (Fin g1 - Fin 128) + Fin 128 = Fin t1 \<and>
                  contrastFactor defaultSettings * (Fin g2 - Fin 128) + Fin 128 = Fin t2 \<and> t2 < t1)"
    by blast
  have "(0::real) < 255" by simp
  with m obtain t1 t2 where
    "contrastFactor defaultSettings * (Fin 0 - Fin 128) + Fin 128 = Fin t1"
    "contrastFactor defaultSettings * (Fin 255 - Fin 128) + Fin 128 = Fin t2" "t2 < t1"
    by blast
  with h d f show ?thesis by blast
qed

end
